theory Spec2Isabelle
  imports Main "HOL-Library.Word"
begin

unbundle bit_operations_syntax

section \<open>Bytes, exceptions and the byte source\<close>

text \<open>
  Python \<^verbatim>\<open>bytes\<close> are lists of octets. A call that may raise returns its exception
  in place of its value; \<^verbatim>\<open>KeyboardInterrupt\<close> is the one exception of the program
  that is not a subclass of \<^verbatim>\<open>Exception\<close>. \<^verbatim>\<open>ArgumentTypeError\<close> carries the name
  of the file that was not found.
\<close>

type_synonym byte = "8 word"
type_synonym bytes = "byte list"

datatype exn =
    ArgumentTypeError string
  | OverflowError
  | SerialException
  | TransportError
  | KeyboardInterrupt

fun is_Exception :: "exn \<Rightarrow> bool" where
  "is_Exception KeyboardInterrupt = False"
| "is_Exception _ = True"

text \<open>
  \<^verbatim>\<open>serial_port.read(n)\<close> belongs to the serial library, not to this program. The frame
  reader takes it as a parameter: from the state of the source and the number of bytes
  asked for, it raises or returns some bytes, and leaves the source in its next state.
\<close>

type_synonym 's reader = "'s \<Rightarrow> nat \<Rightarrow> (exn + bytes) \<times> 's"

text \<open>
  Two sources over a finite recording of the line, the state being the bytes not yet
  read. The serial library documents both behaviours of \<^verbatim>\<open>read\<close>: without a timeout
  (as the program opens the port) it returns exactly the bytes asked for, and a line
  that has gone away for good makes it raise; with a timeout, or on a file-like object,
  it returns the bytes that are left, fewer than asked for.
\<close>

datatype eof_mode = Raises | Short

fun serial_read :: "eof_mode \<Rightarrow> bytes reader" where
  "serial_read Raises s n =
     (if n \<le> length s then (Inr (take n s), drop n s) else (Inl SerialException, s))"
| "serial_read Short s n = (Inr (take n s), drop n s)"

definition exact_reads :: "'s reader \<Rightarrow> bool" where
  "exact_reads rd \<longleftrightarrow> (\<forall>s n bs s'. rd s n = (Inr bs, s') \<longrightarrow> length bs = n)"

section \<open>The frame reader\<close>

text \<open>\<^verbatim>\<open>int.from_bytes(bs, byteorder="big")\<close>, unsigned.\<close>

definition int_from_bytes_big :: "bytes \<Rightarrow> nat" where
  "int_from_bytes_big bs = foldl (\<lambda>acc b. acc * 256 + unat b) 0 bs"

text \<open>Lines 84-86: the length field with its six reserved bits masked off.\<close>

definition message_length :: "bytes \<Rightarrow> nat" where
  "message_length reserved_and_length = int_from_bytes_big reserved_and_length AND 0x3FF"

text \<open>
  Lines 74-79: the search for the preamble reads one byte at a time and leaves the loop
  only when the read returns exactly \<^verbatim>\<open>b"\xd3"\<close>. The loop has no bound, so the model
  is a partial function: \<open>None\<close> is the search that never ends.
\<close>

partial_function (option) find_preamble :: "'s reader \<Rightarrow> 's \<Rightarrow> ((exn + bytes) \<times> 's) option" where
  "find_preamble rd s =
     (case rd s 1 of
        (Inl e, s') \<Rightarrow> Some (Inl e, s')
      | (Inr preamble, s') \<Rightarrow>
          if preamble = [0xD3] then Some (Inr preamble, s') else find_preamble rd s')"

declare find_preamble.simps [code]

text \<open>
  Lines 71-94. Every read may raise; the exception leaves the function. The two
  \<^verbatim>\<open>logging.debug\<close> lines are below the level the program sets and write nothing.
\<close>

definition read_rtcm_packet :: "'s reader \<Rightarrow> 's \<Rightarrow> ((exn + bytes) \<times> 's) option" where
  "read_rtcm_packet rd s =
     (case find_preamble rd s of
        None \<Rightarrow> None
      | Some (Inl e, s1) \<Rightarrow> Some (Inl e, s1)
      | Some (Inr preamble, s1) \<Rightarrow>
          (case rd s1 2 of
             (Inl e, s2) \<Rightarrow> Some (Inl e, s2)
           | (Inr reserved_and_length, s2) \<Rightarrow>
               (case rd s2 (message_length reserved_and_length) of
                  (Inl e, s3) \<Rightarrow> Some (Inl e, s3)
                | (Inr message, s3) \<Rightarrow>
                    (case rd s3 3 of
                       (Inl e, s4) \<Rightarrow> Some (Inl e, s4)
                     | (Inr crc, s4) \<Rightarrow>
                         Some (Inr (preamble @ reserved_and_length @ message @ crc), s4)))))"

text \<open>
  On a recorded line the read cursor is the number of bytes no longer in the state.
  \<open>bytes_read\<close> is the advance of the cursor over one call of the frame reader,
  \<open>bytes_read_after_preamble\<close> its advance from the end of the preamble search on.
\<close>

definition bytes_read :: "eof_mode \<Rightarrow> bytes \<Rightarrow> nat option" where
  "bytes_read m s =
     (case read_rtcm_packet (serial_read m) s of
        Some (Inr frame, s4) \<Rightarrow> Some (length s - length s4)
      | _ \<Rightarrow> None)"

definition bytes_read_after_preamble :: "eof_mode \<Rightarrow> bytes \<Rightarrow> nat option" where
  "bytes_read_after_preamble m s =
     (case (find_preamble (serial_read m) s, read_rtcm_packet (serial_read m) s) of
        (Some (Inr preamble, s1), Some (Inr frame, s4)) \<Rightarrow> Some (length s1 - length s4)
      | _ \<Rightarrow> None)"

section \<open>The timestamp\<close>

text \<open>
  \<^verbatim>\<open>v.to_bytes(n, byteorder="big")\<close>: the \<open>n\<close> base-256 digits of \<open>v\<close>, most
  significant first. Python raises \<^verbatim>\<open>OverflowError\<close> for a negative \<open>v\<close> and for one
  that needs more than \<open>n\<close> bytes.
\<close>

fun be_bytes :: "nat \<Rightarrow> nat \<Rightarrow> bytes" where
  "be_bytes 0 v = []"
| "be_bytes (Suc n) v = be_bytes n (v div 256) @ [of_nat (v mod 256)]"

definition int_to_bytes_big :: "int \<Rightarrow> nat \<Rightarrow> exn + bytes" where
  "int_to_bytes_big v n =
     (if v < 0 \<or> 256 ^ n \<le> v then Inl OverflowError else Inr (be_bytes n (nat v)))"

text \<open>
  Lines 66-68. The first argument stands for the value of
  \<^verbatim>\<open>int(time.time() * 1000)\<close> at the call.
\<close>

definition get_timestamp_ms_bytes :: "int \<Rightarrow> nat \<Rightarrow> exn + bytes" where
  "get_timestamp_ms_bytes timestamp_ms n_bytes = int_to_bytes_big timestamp_ms n_bytes"

section \<open>Credential files\<close>

text \<open>
  A path is what the program builds: \<^verbatim>\<open>Path(str)\<close> or a path joined with a name by
  \<^verbatim>\<open>/\<close>. The file system is the predicate \<^verbatim>\<open>exists()\<close> on paths.
\<close>

datatype path = Path string | Div path string

datatype event =
    Info string
  | Info_using string path
  | Info_attaching string int
  | Error_fatal exn
  | Error string
  | Print string
  | Serial_open string int
  | Client_new
  | Tls_set path path path
  | Connect string int
  | Flush_output
  | Loop_start
  | Sleep nat
  | Publish string bytes nat
  | Disconnect
  | Close

text \<open>
  Lines 54-63. The loop over the three names stops at the first one that is missing;
  the log lines written up to there are returned with the result.
\<close>

fun check_files :: "(path \<Rightarrow> bool) \<Rightarrow> path \<Rightarrow> string list \<Rightarrow> event list \<Rightarrow> event list \<times> exn option" where
  "check_files exists cert_dir [] log = (log, None)"
| "check_files exists cert_dir (file # files) log =
     (if exists (Div cert_dir file)
      then check_files exists cert_dir files (log @ [Info_using file cert_dir])
      else (log, Some (ArgumentTypeError file)))"

definition mtls_cert_path :: "(path \<Rightarrow> bool) \<Rightarrow> string \<Rightarrow> event list \<times> (exn + path)" where
  "mtls_cert_path exists str_path =
     (let cert_dir = Path str_path in
      case check_files exists cert_dir [''device.crt'', ''device.key'', ''AmazonRootCA1.pem''] [] of
        (log, Some e) \<Rightarrow> (log, Inl e)
      | (log, None) \<Rightarrow> (log, Inr cert_dir))"

section \<open>Start-up\<close>

record ClientConfig =
  client_id :: string
  broker :: string
  topic :: string
  ca_cert_path :: path
  cert_dir :: path
  port :: int

record args =
  serial_port :: string
  baud_rate :: int
  cert_path :: string
  mqtt_uri :: string
  mqtt_port :: int
  mqtt_topic :: string

text \<open>Decimal digits of a natural number, and the format \<^verbatim>\<open>{:02}\<close>.\<close>

definition digit :: "nat \<Rightarrow> char" where
  "digit d = char_of (48 + d)"

fun str_nat :: "nat \<Rightarrow> string" where
  "str_nat n = (if n < 10 then [digit n] else str_nat (n div 10) @ [digit (n mod 10)])"

declare str_nat.simps [simp del]

definition format_02 :: "nat \<Rightarrow> string" where
  "format_02 n = (let s = str_nat n in replicate (2 - length s) (CHR ''0'') @ s)"

text \<open>Line 128; \<open>r\<close> is the value drawn by \<^verbatim>\<open>random.randint(10, 99)\<close>.\<close>

definition make_client_id :: "nat \<Rightarrow> string" where
  "make_client_id r = ''rtcm_mqtt_streamer'' @ format_02 r"

text \<open>Lines 127-133.\<close>

definition make_config :: "args \<Rightarrow> path \<Rightarrow> nat \<Rightarrow> ClientConfig" where
  "make_config a cert r =
     \<lparr>client_id = make_client_id r, broker = mqtt_uri a, topic = mqtt_topic a,
      ca_cert_path = Div cert ''AmazonRootCA1.pem'', cert_dir = cert, port = 8883\<rparr>"

text \<open>
  The collaborators of start-up are not part of the program: opening the serial port
  (\<^verbatim>\<open>serial.Serial(port, baud)\<close>), creating the transport client
  (\<^verbatim>\<open>mqtt.Client()\<close>), and the client's \<^verbatim>\<open>tls_set\<close> and \<^verbatim>\<open>connect\<close>. Each of
  them returns or raises; their answers are parameters.
\<close>

record net =
  serial_Serial :: "string \<Rightarrow> int \<Rightarrow> exn option"
  mqtt_Client :: "exn option"
  client_tls_set :: "path \<Rightarrow> path \<Rightarrow> path \<Rightarrow> exn option"
  client_connect :: "string \<Rightarrow> int \<Rightarrow> exn option"

text \<open>
  Lines 31-51: the calls \<^verbatim>\<open>create_client\<close> makes, in order, and the exception that
  leaves it, if any. None of the calls is guarded, so the first one that raises ends
  the function and the later ones are not made. The two callbacks it installs only
  write log lines when the transport calls them.
\<close>

definition create_client :: "net \<Rightarrow> ClientConfig \<Rightarrow> event list \<times> exn option" where
  "create_client nt config =
     (let certfile = Div (cert_dir config) ''device.crt'';
          keyfile = Div (cert_dir config) ''device.key''
      in case mqtt_Client nt of
           Some e \<Rightarrow> ([Client_new], Some e)
         | None \<Rightarrow>
             (case client_tls_set nt (ca_cert_path config) certfile keyfile of
                Some e \<Rightarrow> ([Client_new, Tls_set (ca_cert_path config) certfile keyfile], Some e)
              | None \<Rightarrow>
                  ([Client_new, Tls_set (ca_cert_path config) certfile keyfile,
                    Connect (broker config) (port config)],
                   client_connect nt (broker config) (port config))))"

text \<open>
  Lines 98-134. \<^verbatim>\<open>parse_args\<close> runs \<^verbatim>\<open>mtls_cert_path\<close> on the argument; its
  \<^verbatim>\<open>ArgumentTypeError\<close> ends the program there. Otherwise the serial port is opened,
  then the configuration is built and the client created and connected; these calls are
  outside the \<^verbatim>\<open>try\<close>, so an exception of any of them ends the program as well.
\<close>

definition startup ::
  "(path \<Rightarrow> bool) \<Rightarrow> net \<Rightarrow> args \<Rightarrow> nat \<Rightarrow> event list \<times> (exn + ClientConfig)" where
  "startup exists nt a r =
     (case mtls_cert_path exists (cert_path a) of
        (log, Inl e) \<Rightarrow> (log, Inl e)
      | (log, Inr cert) \<Rightarrow>
          (let log1 = log @ [Info_attaching (serial_port a) (baud_rate a),
                             Serial_open (serial_port a) (baud_rate a)]
           in case serial_Serial nt (serial_port a) (baud_rate a) of
                Some e \<Rightarrow> (log1, Inl e)
              | None \<Rightarrow>
                  (let mqtt_config = make_config a cert r
                   in case create_client nt mqtt_config of
                        (calls, Some e) \<Rightarrow> (log1 @ calls, Inl e)
                      | (calls, None) \<Rightarrow> (log1 @ calls, Inr mqtt_config))))"

text \<open>
  Start-up on a bench: the arguments of a run, and collaborators that give fixed answers
  (\<open>None\<close>: the call returns).
\<close>

definition args0 :: args where
  "args0 = \<lparr>serial_port = ''/dev/ttyACM0'', baud_rate = 115200, cert_path = ''/etc/certs'',
             mqtt_uri = ''broker.example'', mqtt_port = 8883, mqtt_topic = ''ntrip/data''\<rparr>"

definition net0 :: "exn option \<Rightarrow> exn option \<Rightarrow> exn option \<Rightarrow> exn option \<Rightarrow> net" where
  "net0 opened created tls connected =
     \<lparr>serial_Serial = (\<lambda>p b. opened), mqtt_Client = created,
      client_tls_set = (\<lambda>ca crt key. tls), client_connect = (\<lambda>h p. connected)\<rparr>"

section \<open>The streaming loop and the shutdown\<close>

text \<open>
  The collaborators of lines 136-157: the serial port, the transport client and the
  clock. Each call on the port or the client raises or returns, and leaves the object
  in its next state; \<open>time_ms k\<close> is the value of \<^verbatim>\<open>int(time.time() * 1000)\<close> at
  the \<open>k\<close>-th reading of the clock.
\<close>

record ('s, 'c) io =
  ser_read :: "'s reader"
  ser_flushOutput :: "'s \<Rightarrow> exn option \<times> 's"
  ser_close :: "'s \<Rightarrow> exn option \<times> 's"
  mqtt_loop_start :: "'c \<Rightarrow> exn option \<times> 'c"
  mqtt_publish :: "'c \<Rightarrow> string \<Rightarrow> bytes \<Rightarrow> nat \<Rightarrow> exn option \<times> 'c"
  mqtt_disconnect :: "'c \<Rightarrow> exn option \<times> 'c"
  time_ms :: "nat \<Rightarrow> int"

text \<open>
  The state of the run: the two objects, the number of clock readings so far, and the
  trace of log lines and calls made on the collaborators.
\<close>

record ('s, 'c) world =
  ser :: 's
  mqtt_client :: 'c
  clock_reads :: nat
  trace :: "event list"

text \<open>
  Lines 142-145, one turn of the loop: the frame is read, then the clock, then the
  payload is handed to \<^verbatim>\<open>publish\<close> with \<^verbatim>\<open>qos=1\<close>. \<open>Inl\<close> is the exception that
  leaves the loop, \<open>None\<close> a read that never returns.
\<close>

definition loop_body ::
  "('s, 'c) io \<Rightarrow> string \<Rightarrow> ('s, 'c) world \<Rightarrow> (exn \<times> ('s, 'c) world + ('s, 'c) world) option" where
  "loop_body io tp w =
     (case read_rtcm_packet (ser_read io) (ser w) of
        None \<Rightarrow> None
      | Some (Inl e, s') \<Rightarrow> Some (Inl (e, w\<lparr>ser := s'\<rparr>))
      | Some (Inr rtcm_packet, s') \<Rightarrow>
          (let w1 = w\<lparr>ser := s', clock_reads := Suc (clock_reads w)\<rparr> in
           case get_timestamp_ms_bytes (time_ms io (clock_reads w)) 16 of
             Inl e \<Rightarrow> Some (Inl (e, w1))
           | Inr ts \<Rightarrow>
               (let payload = ts @ rtcm_packet;
                    w2 = w1\<lparr>trace := trace w1 @ [Publish tp payload 1]\<rparr>
                in case mqtt_publish io (mqtt_client w2) tp payload 1 of
                     (Some e, c') \<Rightarrow> Some (Inl (e, w2\<lparr>mqtt_client := c'\<rparr>))
                   | (None, c') \<Rightarrow> Some (Inr (w2\<lparr>mqtt_client := c'\<rparr>)))))"

text \<open>Lines 141-145: \<^verbatim>\<open>while True\<close>; only an exception ends it.\<close>

partial_function (option) streaming ::
  "('s, 'c) io \<Rightarrow> string \<Rightarrow> ('s, 'c) world \<Rightarrow> (exn \<times> ('s, 'c) world) option" where
  "streaming io tp w =
     (case loop_body io tp w of
        None \<Rightarrow> None
      | Some (Inl ew) \<Rightarrow> Some ew
      | Some (Inr w') \<Rightarrow> streaming io tp w')"

declare streaming.simps [code]

text \<open>Lines 136-145, the body of the \<^verbatim>\<open>try\<close>.\<close>

definition try_body ::
  "('s, 'c) io \<Rightarrow> string \<Rightarrow> ('s, 'c) world \<Rightarrow> (exn \<times> ('s, 'c) world) option" where
  "try_body io tp w =
     (let w0 = w\<lparr>trace := trace w @ [Flush_output]\<rparr> in
      case ser_flushOutput io (ser w0) of
        (Some e, s') \<Rightarrow> Some (e, w0\<lparr>ser := s'\<rparr>)
      | (None, s') \<Rightarrow>
          (let w1 = w0\<lparr>ser := s', trace := trace w0 @ [Loop_start]\<rparr> in
           case mqtt_loop_start io (mqtt_client w1) of
             (Some e, c') \<Rightarrow> Some (e, w1\<lparr>mqtt_client := c'\<rparr>)
           | (None, c') \<Rightarrow>
               streaming io tp (w1\<lparr>mqtt_client := c', trace := trace w1 @ [Sleep 1]\<rparr>)))"

text \<open>Lines 146-152, the two handlers.\<close>

definition handler :: "exn \<Rightarrow> ('s, 'c) world \<Rightarrow> ('s, 'c) world" where
  "handler err w =
     (if is_Exception err
      then w\<lparr>trace := trace w @ [Error_fatal err, Error ''Shutting down...'']\<rparr>
      else w\<lparr>trace := trace w @ [Print [], Info ''Received KeyboardInterrupt'']\<rparr>)"

text \<open>
  Lines 153-157, the \<^verbatim>\<open>finally\<close> block: two calls in sequence, neither inside a
  \<^verbatim>\<open>try\<close> of its own. The first component of the result is the exception that leaves
  the block.
\<close>

definition finally_block :: "('s, 'c) io \<Rightarrow> ('s, 'c) world \<Rightarrow> exn option \<times> ('s, 'c) world" where
  "finally_block io w =
     (let w1 = w\<lparr>trace := trace w @ [Info ''Disconnecting from MQTT'', Disconnect]\<rparr> in
      case mqtt_disconnect io (mqtt_client w1) of
        (Some e, c') \<Rightarrow> (Some e, w1\<lparr>mqtt_client := c'\<rparr>)
      | (None, c') \<Rightarrow>
          (let w2 = w1\<lparr>mqtt_client := c', trace := trace w1 @ [Info ''Closing serial port'', Close]\<rparr> in
           case ser_close io (ser w2) of
             (r, s') \<Rightarrow> (r, w2\<lparr>ser := s'\<rparr>)))"

text \<open>Lines 136-157 as a whole.\<close>

definition supervise ::
  "('s, 'c) io \<Rightarrow> string \<Rightarrow> ('s, 'c) world \<Rightarrow> (exn option \<times> ('s, 'c) world) option" where
  "supervise io tp w =
     (case try_body io tp w of
        None \<Rightarrow> None
      | Some (err, w') \<Rightarrow> Some (finally_block io (handler err w')))"

text \<open>
  A test bench: a recorded line as the port, a transport whose state is the number of
  payloads accepted; \<open>disc\<close> and \<open>cls\<close> are the answers of \<^verbatim>\<open>disconnect\<close> and
  \<^verbatim>\<open>close\<close>.
\<close>

definition bench :: "eof_mode \<Rightarrow> (nat \<Rightarrow> int) \<Rightarrow> exn option \<Rightarrow> exn option \<Rightarrow> (bytes, nat) io" where
  "bench m clk disc cls =
     \<lparr>ser_read = serial_read m,
      ser_flushOutput = (\<lambda>s. (None, s)),
      ser_close = (\<lambda>s. (cls, s)),
      mqtt_loop_start = (\<lambda>c. (None, c)),
      mqtt_publish = (\<lambda>c tp payload qos. (None, Suc c)),
      mqtt_disconnect = (\<lambda>c. (disc, c)),
      time_ms = clk\<rparr>"

definition world0 :: "bytes \<Rightarrow> (bytes, nat) world" where
  "world0 line = \<lparr>ser = line, mqtt_client = 0, clock_reads = 0, trace = []\<rparr>"


section \<open>Properties of the frame reader\<close>

subsection \<open>The length field\<close>

lemma and_1023_mod: "(x::nat) AND 0x3FF = x mod 1024"
proof -
  have "x AND mask 10 = take_bit 10 x" by (simp only: take_bit_eq_mask)
  then show ?thesis by (simp add: take_bit_eq_mod mask_eq_exp_minus_1)
qed

lemma message_length_bound: "message_length bs < 1024"
  by (simp add: message_length_def and_1023_mod)

lemma message_length_two: "message_length [hi, lo] = (unat hi * 256 + unat lo) mod 1024"
  by (simp add: message_length_def and_1023_mod int_from_bytes_big_def)

text \<open>A field built from six reserved bits \<open>r\<close> and a ten-bit length \<open>L\<close> decodes to \<open>L\<close>.\<close>

lemma message_length_field:
  assumes "L < 1024" and "r < 64"
  shows "message_length [of_nat (4 * r + L div 256), of_nat (L mod 256)] = L"
proof -
  have hi: "unat (of_nat (4 * r + L div 256) :: byte) = 4 * r + L div 256"
    using assms by (subst unat_of_nat) simp
  have lo: "unat (of_nat (L mod 256) :: byte) = L mod 256"
    by (simp add: unat_of_nat)
  have "(4 * r + L div 256) * 256 + L mod 256 = 1024 * r + L"
    by simp
  then show ?thesis
    unfolding message_length_two hi lo using assms by simp
qed

subsection \<open>The preamble search on a recorded line\<close>

lemma find_preamble_hit: "find_preamble (serial_read m) (0xD3 # s) = Some (Inr [0xD3], s)"
  by (cases m) (simp_all add: find_preamble.simps)

lemma find_preamble_skip:
  "x \<noteq> 0xD3 \<Longrightarrow> find_preamble (serial_read m) (x # s) = find_preamble (serial_read m) s"
  by (cases m) (simp_all add: find_preamble.simps[of _ "x # s"])

lemma find_preamble_garbage:
  "0xD3 \<notin> set g \<Longrightarrow> find_preamble (serial_read m) (g @ s) = find_preamble (serial_read m) s"
  by (induction g) (simp_all add: find_preamble_skip)

text \<open>At the end of a line that answers with short reads the search never ends.\<close>

lemma find_preamble_short_eof: "find_preamble (serial_read Short) [] = None"
proof -
  have "\<not> (rd = serial_read Short \<and> s = [])" if "find_preamble rd s = Some r" for rd s r
    by (rule find_preamble.raw_induct
          [where P = "\<lambda>rd s r. \<not> (rd = serial_read Short \<and> s = [])", OF _ that])
       (fastforce split: sum.splits prod.splits if_splits)
  then show ?thesis by (cases "find_preamble (serial_read Short) []") auto
qed

subsection \<open>Reading one frame from a recorded line\<close>

lemma serial_read_enough:
  "n \<le> length s \<Longrightarrow> serial_read m s n = (Inr (take n s), drop n s)"
  by (cases m) simp_all

lemma read_frame:
  assumes "length payload = message_length [hi, lo]" and "length crc = 3"
  shows "read_rtcm_packet (serial_read m) ([0xD3, hi, lo] @ payload @ crc @ rest)
           = Some (Inr ([0xD3, hi, lo] @ payload @ crc), rest)"
  using assms
  by (simp add: read_rtcm_packet_def find_preamble_hit serial_read_enough)

lemma read_garbage:
  "0xD3 \<notin> set g \<Longrightarrow>
     read_rtcm_packet (serial_read m) (g @ s) = read_rtcm_packet (serial_read m) s"
  by (simp add: read_rtcm_packet_def find_preamble_garbage)

lemma bytes_read_frame:
  assumes "length payload = message_length [hi, lo]" and "length crc = 3"
  shows "bytes_read m ([0xD3, hi, lo] @ payload @ crc @ rest) = Some (6 + length payload)"
    and "bytes_read_after_preamble m ([0xD3, hi, lo] @ payload @ crc @ rest)
           = Some (5 + length payload)"
  using assms read_frame [OF assms, of m rest] find_preamble_hit [of m "hi # lo # payload @ crc @ rest"]
  by (simp_all add: bytes_read_def bytes_read_after_preamble_def)

subsection \<open>Any source\<close>

text \<open>The search returns nothing but the preamble byte, by induction on the loop.\<close>

lemma find_preamble_result:
  assumes "find_preamble rd s = Some r"
  shows "\<forall>p s'. r = (Inr p, s') \<longrightarrow> p = [0xD3]"
  by (rule find_preamble.raw_induct
        [where P = "\<lambda>rd s r. \<forall>p s'. r = (Inr p, s') \<longrightarrow> p = [0xD3]", OF _ assms])
     (auto split: sum.splits prod.splits if_splits)

lemma read_rtcm_packet_shape:
  assumes "read_rtcm_packet rd s = Some (Inr f, s')"
  shows "\<exists>rl msg crc s1 s2 s3. f = [0xD3] @ rl @ msg @ crc \<and>
           find_preamble rd s = Some (Inr [0xD3], s1) \<and>
           rd s1 2 = (Inr rl, s2) \<and> rd s2 (message_length rl) = (Inr msg, s3) \<and>
           rd s3 3 = (Inr crc, s')"
  using assms find_preamble_result [of rd s]
  by (auto simp: read_rtcm_packet_def split: option.splits sum.splits prod.splits)

lemma exact_reads_Raises: "exact_reads (serial_read Raises)"
  by (auto simp: exact_reads_def split: if_splits)

lemma frame_length_exact:
  assumes "exact_reads rd" and "read_rtcm_packet rd s = Some (Inr f, s')"
  shows "length f = 6 + message_length (take 2 (drop 1 f))"
proof -
  from read_rtcm_packet_shape [OF assms(2)] obtain rl msg crc s1 s2 s3 where
    f: "f = [0xD3] @ rl @ msg @ crc" and
    r2: "rd s1 2 = (Inr rl, s2)" and r3: "rd s2 (message_length rl) = (Inr msg, s3)" and
    r4: "rd s3 3 = (Inr crc, s')" by blast
  from assms(1) r2 r3 r4 have "length rl = 2" "length msg = message_length rl" "length crc = 3"
    unfolding exact_reads_def by blast+
  then show ?thesis by (simp add: f)
qed

lemma eof_raises:
  assumes "0xD3 \<notin> set g" and "length t < 5 + message_length (take 2 t)"
  shows "\<exists>s'. read_rtcm_packet (serial_read Raises) (g @ 0xD3 # t) = Some (Inl SerialException, s')"
  using assms
  by (auto simp: read_rtcm_packet_def find_preamble_garbage find_preamble_hit)

text \<open>An exception raised by any read after the preamble leaves the reader as it is.\<close>

lemma raise_propagates:
  assumes "find_preamble rd s = Some (Inr p, s1)"
    and "rd s1 2 = (Inl e, s')
       \<or> (\<exists>rl s2. rd s1 2 = (Inr rl, s2)
            \<and> (rd s2 (message_length rl) = (Inl e, s')
               \<or> (\<exists>msg s3. rd s2 (message_length rl) = (Inr msg, s3) \<and> rd s3 3 = (Inl e, s'))))"
  shows "read_rtcm_packet rd s = Some (Inl e, s')"
  using assms by (auto simp: read_rtcm_packet_def)

section \<open>The claims about the frame reader\<close>

text \<open>
  C1, as amended. A frame is the preamble, a length field made of any six reserved bits
  \<open>r\<close> and a length \<open>L\<close> below 1024, \<open>L\<close> payload bytes and three trailing bytes. Read
  from a recorded line, whatever follows it there, the frame comes back byte for byte
  and is \<open>6 + L\<close> bytes long; the cursor moves by \<open>6 + L\<close> bytes over the call, the
  preamble included, which is \<open>5 + L\<close> bytes from the end of the preamble on.
\<close>

theorem frame_roundtrip:
  assumes "L < 1024" and "r < 64" and "length payload = L" and "length crc = 3"
  shows "let frame = [0xD3, of_nat (4 * r + L div 256), of_nat (L mod 256)] @ payload @ crc in
           read_rtcm_packet (serial_read m) (frame @ rest) = Some (Inr frame, rest)
         \<and> length frame = 6 + L
         \<and> bytes_read m (frame @ rest) = Some (6 + L)
         \<and> bytes_read_after_preamble m (frame @ rest) = Some (5 + L)"
proof -
  have ml: "length payload = message_length [of_nat (4 * r + L div 256), of_nat (L mod 256)]"
    using assms by (simp only: message_length_field)
  show ?thesis
    using read_frame [OF ml assms(4), of m rest] bytes_read_frame [OF ml assms(4), of m rest] assms
    by (simp add: Let_def)
qed

text \<open>The longest frame: all ten length bits set, 1029 bytes.\<close>

theorem frame_roundtrip_witness:
  "read_rtcm_packet (serial_read Raises) (([0xD3, 0xFF, 0xFF] @ replicate 1023 0x5A @ [1, 2, 3]) @ [0xD3])
     = Some (Inr ([0xD3, 0xFF, 0xFF] @ replicate 1023 0x5A @ [1, 2, 3]), [0xD3])
   \<and> length ([0xD3, 0xFF, 0xFF] @ replicate 1023 (0x5A :: byte) @ [1, 2, 3]) = 1029
   \<and> bytes_read Raises (([0xD3, 0xFF, 0xFF] @ replicate 1023 0x5A @ [1, 2, 3]) @ [0xD3]) = Some 1029
   \<and> bytes_read_after_preamble Raises (([0xD3, 0xFF, 0xFF] @ replicate 1023 0x5A @ [1, 2, 3]) @ [0xD3])
        = Some 1028"
  using frame_roundtrip [of 1023 63 "replicate 1023 0x5A" "[1, 2, 3]" Raises "[0xD3]"]
  by (simp add: Let_def)

text \<open>
  C1 as stated has the reader consume \<open>6 + L\<close> bytes past the preamble. For the
  six-byte frame with \<open>L = 0\<close> the two length bytes and the three trailing bytes are
  all that is read after the preamble: five bytes, not six.
\<close>

theorem cursor_past_preamble_counterexample:
  "bytes_read_after_preamble Raises [0xD3, 0x00, 0x00, 0xAA, 0xBB, 0xCC]
     \<noteq> Some (6 + message_length [0x00, 0x00])"
  using bytes_read_frame(2) [of "[]" 0 0 "[0xAA, 0xBB, 0xCC]" Raises "[]"]
  by (simp add: message_length_two)

text \<open>The three reads after the preamble on a line that answers with short reads.\<close>

lemma read_short_line:
  "read_rtcm_packet (serial_read Short) (0xD3 # hi # lo # t)
     = Some (Inr ([0xD3, hi, lo] @ take (message_length [hi, lo]) t
                    @ take 3 (drop (message_length [hi, lo]) t)),
             drop 3 (drop (message_length [hi, lo]) t))"
  by (simp add: read_rtcm_packet_def find_preamble_hit drop_Cons')

text \<open>
  C2. The length is the big-endian value of the two bytes after the preamble with the top
  six bits masked off, so it is that value modulo \<open>2 ^ 10\<close> and below 1024 whatever
  the bytes. The reader reads exactly two bytes after the preamble and then as many
  payload bytes as this length says, and three more: on a line that answers with short
  reads, for any two bytes \<open>hi\<close>, \<open>lo\<close> and any rest of the line; on a recorded line
  that holds a whole frame, in both read modes; and for any source, whenever a frame is
  returned. The line \<^verbatim>\<open>D3 00 03 01 02 03 AA BB CC\<close> has length field 3 and gives one
  frame of all nine bytes; nothing is left on the line, and the next call gives no
  second frame: it raises, or on a line that answers with short reads never returns.
\<close>

theorem length_field_decoding:
  "message_length [hi, lo] = (unat hi * 256 + unat lo) mod 2 ^ 10
   \<and> message_length bs < 1024
   \<and> message_length [0x00, 0x03] = 3
   \<and> read_rtcm_packet (serial_read m) [0xD3, 0x00, 0x03, 0x01, 0x02, 0x03, 0xAA, 0xBB, 0xCC]
        = Some (Inr [0xD3, 0x00, 0x03, 0x01, 0x02, 0x03, 0xAA, 0xBB, 0xCC], [])
   \<and> length [0xD3, 0x00, 0x03, 0x01, 0x02, 0x03, 0xAA, 0xBB, 0xCC :: byte] = 9
   \<and> read_rtcm_packet (serial_read Raises) [] = Some (Inl SerialException, [])
   \<and> read_rtcm_packet (serial_read Short) [] = None
   \<and> read_rtcm_packet (serial_read Short) (0xD3 # hi # lo # t)
        = Some (Inr ([0xD3, hi, lo] @ take (message_length [hi, lo]) t
                       @ take 3 (drop (message_length [hi, lo]) t)),
                drop 3 (drop (message_length [hi, lo]) t))
   \<and> (length payload = message_length [hi, lo] \<and> length crc = 3 \<longrightarrow>
        read_rtcm_packet (serial_read m) ([0xD3, hi, lo] @ payload @ crc @ rest)
          = Some (Inr ([0xD3, hi, lo] @ payload @ crc), rest))
   \<and> (read_rtcm_packet rd s = Some (Inr f, s') \<longrightarrow>
        (\<exists>rl msg tail s1 s2 s3.
            f = [0xD3] @ rl @ msg @ tail
          \<and> find_preamble rd s = Some (Inr [0xD3], s1)
          \<and> rd s1 2 = (Inr rl, s2)
          \<and> rd s2 (message_length rl) = (Inr msg, s3)
          \<and> rd s3 3 = (Inr tail, s')))"
proof -
  have scenario:
    "read_rtcm_packet (serial_read m) [0xD3, 0x00, 0x03, 0x01, 0x02, 0x03, 0xAA, 0xBB, 0xCC]
        = Some (Inr [0xD3, 0x00, 0x03, 0x01, 0x02, 0x03, 0xAA, 0xBB, 0xCC], [])"
    using read_frame [of "[0x01, 0x02, 0x03]" 0 3 "[0xAA, 0xBB, 0xCC]" m "[]"]
    by (simp add: message_length_two)
  have eof: "read_rtcm_packet (serial_read Raises) [] = Some (Inl SerialException, [])"
    by (simp add: read_rtcm_packet_def find_preamble.simps)
  have never: "read_rtcm_packet (serial_read Short) [] = None"
    by (simp add: read_rtcm_packet_def find_preamble_short_eof)
  have field: "message_length [hi, lo] = (unat hi * 256 + unat lo) mod 2 ^ 10"
    "message_length bs < 1024" "message_length [0x00, 0x03] = 3"
    "length [0xD3, 0x00, 0x03, 0x01, 0x02, 0x03, 0xAA, 0xBB, 0xCC :: byte] = 9"
    by (simp_all add: message_length_two message_length_bound)
  have whole: "length payload = message_length [hi, lo] \<and> length crc = 3 \<longrightarrow>
        read_rtcm_packet (serial_read m) ([0xD3, hi, lo] @ payload @ crc @ rest)
          = Some (Inr ([0xD3, hi, lo] @ payload @ crc), rest)"
    using read_frame [of payload hi lo crc m rest] by blast
  have shape: "read_rtcm_packet rd s = Some (Inr f, s') \<longrightarrow>
        (\<exists>rl msg tail s1 s2 s3.
            f = [0xD3] @ rl @ msg @ tail
          \<and> find_preamble rd s = Some (Inr [0xD3], s1)
          \<and> rd s1 2 = (Inr rl, s2)
          \<and> rd s2 (message_length rl) = (Inr msg, s3)
          \<and> rd s3 3 = (Inr tail, s'))"
    using read_rtcm_packet_shape [of rd s f s'] by blast
  from field scenario eof never read_short_line [of hi lo t] whole shape
  show ?thesis by (intro conjI)
qed

text \<open>
  A frame with all six reserved bits set and two payload bytes, with a byte after it:
  the field \<^verbatim>\<open>FC 02\<close> decodes to 2, and the frame returned is the preamble, the two
  bytes of the field, two payload bytes and three more.
\<close>

theorem length_field_decoding_witness:
  "message_length [0xFC, 0x02] = 2
   \<and> read_rtcm_packet (serial_read Raises) ([0xD3, 0xFC, 0x02] @ [0x10, 0x20] @ [0xA1, 0xA2, 0xA3] @ [0x77])
        = Some (Inr ([0xD3, 0xFC, 0x02] @ [0x10, 0x20] @ [0xA1, 0xA2, 0xA3]), [0x77])
   \<and> (\<exists>rl msg tail s1 s2 s3.
          [0xD3, 0xFC, 0x02, 0x10, 0x20, 0xA1, 0xA2, 0xA3] = [0xD3] @ rl @ msg @ tail
        \<and> find_preamble (serial_read Raises) [0xD3, 0xFC, 0x02, 0x10, 0x20, 0xA1, 0xA2, 0xA3, 0x77]
            = Some (Inr [0xD3], s1)
        \<and> serial_read Raises s1 2 = (Inr rl, s2)
        \<and> serial_read Raises s2 (message_length rl) = (Inr msg, s3)
        \<and> serial_read Raises s3 3 = (Inr tail, [0x77]))"
proof -
  note field = length_field_decoding [where hi = "0xFC" and lo = "0x02", THEN conjunct1]
  have ml: "message_length [0xFC, 0x02] = 2"
    using field by simp
  note rest = length_field_decoding
      [where hi = "0xFC" and lo = "0x02" and payload = "[0x10, 0x20]" and crc = "[0xA1, 0xA2, 0xA3]"
         and m = Raises and rest = "[0x77]" and rd = "serial_read Raises"
         and s = "[0xD3, 0xFC, 0x02, 0x10, 0x20, 0xA1, 0xA2, 0xA3, 0x77]"
         and f = "[0xD3, 0xFC, 0x02, 0x10, 0x20, 0xA1, 0xA2, 0xA3]" and s' = "[0x77]",
       THEN conjunct2, THEN conjunct2, THEN conjunct2, THEN conjunct2, THEN conjunct2,
       THEN conjunct2, THEN conjunct2, THEN conjunct2]
  have whole: "read_rtcm_packet (serial_read Raises)
                 ([0xD3, 0xFC, 0x02] @ [0x10, 0x20] @ [0xA1, 0xA2, 0xA3] @ [0x77])
        = Some (Inr ([0xD3, 0xFC, 0x02] @ [0x10, 0x20] @ [0xA1, 0xA2, 0xA3]), [0x77])"
    using rest [THEN conjunct1] ml by simp
  then have "read_rtcm_packet (serial_read Raises) [0xD3, 0xFC, 0x02, 0x10, 0x20, 0xA1, 0xA2, 0xA3, 0x77]
        = Some (Inr [0xD3, 0xFC, 0x02, 0x10, 0x20, 0xA1, 0xA2, 0xA3], [0x77])"
    by simp
  with rest [THEN conjunct2] have shape:
    "\<exists>rl msg tail s1 s2 s3.
          [0xD3, 0xFC, 0x02, 0x10, 0x20, 0xA1, 0xA2, 0xA3] = [0xD3] @ rl @ msg @ tail
        \<and> find_preamble (serial_read Raises) [0xD3, 0xFC, 0x02, 0x10, 0x20, 0xA1, 0xA2, 0xA3, 0x77]
            = Some (Inr [0xD3], s1)
        \<and> serial_read Raises s1 2 = (Inr rl, s2)
        \<and> serial_read Raises s2 (message_length rl) = (Inr msg, s3)
        \<and> serial_read Raises s3 3 = (Inr tail, [0x77])"
    by (rule mp)
  from ml whole shape show ?thesis by (intro conjI)
qed

text \<open>
  C3. Bytes other than \<^verbatim>\<open>0xD3\<close> in front of a frame change nothing in what the reader
  returns: the call gives the same frame, with the same bytes left on the line, as it
  gives without them, and raises nothing; the cursor moves over the garbage and the
  frame and no further. The line \<^verbatim>\<open>FF FF D3 00 00 AA BB CC\<close> gives the six-byte
  frame \<^verbatim>\<open>D3 00 00 AA BB CC\<close>.
\<close>

theorem resynchronization:
  assumes "0xD3 \<notin> set garbage"
    and "L < 1024" and "r < 64" and "length payload = L" and "length crc = 3"
  shows "(let frame = [0xD3, of_nat (4 * r + L div 256), of_nat (L mod 256)] @ payload @ crc in
           read_rtcm_packet (serial_read m) (garbage @ frame @ rest)
             = read_rtcm_packet (serial_read m) (frame @ rest)
         \<and> read_rtcm_packet (serial_read m) (garbage @ frame @ rest) = Some (Inr frame, rest)
         \<and> bytes_read m (garbage @ frame @ rest) = Some (length garbage + (6 + L)))
       \<and> read_rtcm_packet (serial_read m) [0xFF, 0xFF, 0xD3, 0x00, 0x00, 0xAA, 0xBB, 0xCC]
           = Some (Inr [0xD3, 0x00, 0x00, 0xAA, 0xBB, 0xCC], [])"
proof -
  have ml: "length payload = message_length [of_nat (4 * r + L div 256), of_nat (L mod 256)]"
    using assms by (simp only: message_length_field)
  have general:
    "let frame = [0xD3, of_nat (4 * r + L div 256), of_nat (L mod 256)] @ payload @ crc in
           read_rtcm_packet (serial_read m) (garbage @ frame @ rest)
             = read_rtcm_packet (serial_read m) (frame @ rest)
         \<and> read_rtcm_packet (serial_read m) (garbage @ frame @ rest) = Some (Inr frame, rest)
         \<and> bytes_read m (garbage @ frame @ rest) = Some (length garbage + (6 + L))"
    using read_frame [OF ml assms(5), of m rest] assms
      read_garbage [OF assms(1), of m "[0xD3, of_nat (4 * r + L div 256), of_nat (L mod 256)] @ payload @ crc @ rest"]
    by (simp add: Let_def bytes_read_def)
  have "read_rtcm_packet (serial_read m) ([0xFF, 0xFF] @ [0xD3, 0x00, 0x00, 0xAA, 0xBB, 0xCC])
          = read_rtcm_packet (serial_read m) [0xD3, 0x00, 0x00, 0xAA, 0xBB, 0xCC]"
    by (rule read_garbage) simp
  then have scenario:
    "read_rtcm_packet (serial_read m) [0xFF, 0xFF, 0xD3, 0x00, 0x00, 0xAA, 0xBB, 0xCC]
           = Some (Inr [0xD3, 0x00, 0x00, 0xAA, 0xBB, 0xCC], [])"
    using read_frame [of "[]" 0 0 "[0xAA, 0xBB, 0xCC]" m "[]"]
    by (simp add: message_length_two)
  from general scenario show ?thesis by blast
qed

text \<open>Seven bytes of garbage in front of a frame with two payload bytes.\<close>

theorem resynchronization_witness:
  "read_rtcm_packet (serial_read Short)
      ([0x00, 0xFF, 0x13, 0xD2, 0xD4, 0x3D, 0x01] @ [0xD3, 0x54, 0x02, 0x10, 0x20, 0xA1, 0xA2, 0xA3] @ [0x77])
     = Some (Inr [0xD3, 0x54, 0x02, 0x10, 0x20, 0xA1, 0xA2, 0xA3], [0x77])
   \<and> bytes_read Short
        ([0x00, 0xFF, 0x13, 0xD2, 0xD4, 0x3D, 0x01] @ [0xD3, 0x54, 0x02, 0x10, 0x20, 0xA1, 0xA2, 0xA3] @ [0x77])
      = Some 15"
  using resynchronization [of "[0x00, 0xFF, 0x13, 0xD2, 0xD4, 0x3D, 0x01]" 2 21 "[0x10, 0x20]"
          "[0xA1, 0xA2, 0xA3]" Short "[0x77]"]
  by (auto simp add: Let_def)

text \<open>
  C4, as amended. The reader checks the length of nothing it reads; it relies on the
  source. On a line read without a timeout, one that ends after a preamble and before
  the length field, the payload and the three trailing bytes are complete makes the
  read raise, and the reader returns no frame: the exception leaves it. For any source,
  an exception raised by a read after the preamble leaves the reader unchanged, and if
  every read of the source returns as many bytes as were asked for, a frame that is
  returned has 6 bytes more than its length field says.
\<close>

theorem end_of_stream_propagates:
  "(0xD3 \<notin> set g \<longrightarrow> length t < 5 + message_length (take 2 t) \<longrightarrow>
      (\<exists>s'. read_rtcm_packet (serial_read Raises) (g @ 0xD3 # t) = Some (Inl SerialException, s')))
   \<and> (find_preamble rd s = Some (Inr p, s1) \<longrightarrow>
        (rd s1 2 = (Inl e, s')
         \<or> (\<exists>rl s2. rd s1 2 = (Inr rl, s2)
              \<and> (rd s2 (message_length rl) = (Inl e, s')
                 \<or> (\<exists>msg s3. rd s2 (message_length rl) = (Inr msg, s3) \<and> rd s3 3 = (Inl e, s'))))) \<longrightarrow>
        read_rtcm_packet rd s = Some (Inl e, s'))
   \<and> (exact_reads rd \<longrightarrow> read_rtcm_packet rd s = Some (Inr f, s'') \<longrightarrow>
        length f = 6 + message_length (take 2 (drop 1 f)))"
  using eof_raises [of g t] raise_propagates [of rd s p s1 e s'] frame_length_exact [of rd s f s'']
  by blast

text \<open>
  A line that ends inside the length field, one that ends inside the trailing bytes,
  and a complete frame.
\<close>

theorem end_of_stream_propagates_witness:
  "read_rtcm_packet (serial_read Raises) [0xFF, 0xD3, 0x00] = Some (Inl SerialException, [0x00])
   \<and> read_rtcm_packet (serial_read Raises) [0xD3, 0x00, 0x02, 0x11, 0x22, 0xAA, 0xBB]
        = Some (Inl SerialException, [0xAA, 0xBB])
   \<and> exact_reads (serial_read Raises)
   \<and> read_rtcm_packet (serial_read Raises) [0xD3, 0x00, 0x02, 0x11, 0x22, 0xAA, 0xBB, 0xCC]
        = Some (Inr [0xD3, 0x00, 0x02, 0x11, 0x22, 0xAA, 0xBB, 0xCC], [])
   \<and> length [0xD3, 0x00, 0x02, 0x11, 0x22, 0xAA, 0xBB, 0xCC :: byte] = 6 + message_length [0x00, 0x02]"
proof -
  have fp: "find_preamble (serial_read Raises) [0xD3, 0x00, 0x02, 0x11, 0x22, 0xAA, 0xBB]
              = Some (Inr [0xD3], [0x00, 0x02, 0x11, 0x22, 0xAA, 0xBB])"
    by (rule find_preamble_hit)
  have full: "read_rtcm_packet (serial_read Raises) [0xD3, 0x00, 0x02, 0x11, 0x22, 0xAA, 0xBB, 0xCC]
        = Some (Inr [0xD3, 0x00, 0x02, 0x11, 0x22, 0xAA, 0xBB, 0xCC], [])"
    using read_frame [of "[0x11, 0x22]" 0 2 "[0xAA, 0xBB, 0xCC]" Raises "[]"]
    by (simp add: message_length_two)
  have ml: "message_length [0x00, 0x02] = 2" "message_length [0x00] = 0"
    by (simp_all add: message_length_two) (simp add: message_length_def int_from_bytes_big_def)
  note inst = end_of_stream_propagates
      [of "[0xFF]" "[0x00]" "serial_read Raises" "[0xD3, 0x00, 0x02, 0x11, 0x22, 0xAA, 0xBB]"
          "[0xD3]" "[0x00, 0x02, 0x11, 0x22, 0xAA, 0xBB]" SerialException "[0xAA, 0xBB]"
          "[0xD3, 0x00, 0x02, 0x11, 0x22, 0xAA, 0xBB, 0xCC]" "[]"]
  have a: "read_rtcm_packet (serial_read Raises) [0xFF, 0xD3, 0x00] = Some (Inl SerialException, [0x00])"
    by (simp add: read_rtcm_packet_def find_preamble_skip find_preamble_hit)
  have b: "read_rtcm_packet (serial_read Raises) [0xD3, 0x00, 0x02, 0x11, 0x22, 0xAA, 0xBB]
        = Some (Inl SerialException, [0xAA, 0xBB])"
    using inst fp by (simp add: ml)
  have c: "length [0xD3, 0x00, 0x02, 0x11, 0x22, 0xAA, 0xBB, 0xCC :: byte] = 6 + message_length [0x00, 0x02]"
    using end_of_stream_propagates
      [where rd = "serial_read Raises" and s = "[0xD3, 0x00, 0x02, 0x11, 0x22, 0xAA, 0xBB, 0xCC]"
         and f = "[0xD3, 0x00, 0x02, 0x11, 0x22, 0xAA, 0xBB, 0xCC]" and s'' = "[]"]
      full exact_reads_Raises by simp
  from a b c full exact_reads_Raises show ?thesis by blast
qed

text \<open>
  C4 as stated speaks of every byte source. On a source that answers the end of the
  line with short reads, a line that ends after the preamble and one byte of the length
  field gives a frame of two bytes, and no exception.
\<close>

theorem short_read_counterexample:
  "read_rtcm_packet (serial_read Short) [0xD3, 0x00] = Some (Inr [0xD3, 0x00], [])
   \<and> length [0xD3, 0x00 :: byte] < 6 + message_length [0x00]"
  by (simp add: read_rtcm_packet_def find_preamble_hit)

text \<open>
  C10. A byte string returned by the reader begins with \<^verbatim>\<open>0xD3\<close>, whatever the
  source. If every read of the source returns as many bytes as were asked for, its length
  is 6 plus the low ten bits of its length field, bytes 1 and 2, and so lies between 6
  and 1029.
\<close>

theorem frame_invariant:
  assumes "read_rtcm_packet rd s = Some (Inr f, s')"
  shows "f \<noteq> [] \<and> hd f = 0xD3
       \<and> (exact_reads rd \<longrightarrow>
            length f = 6 + message_length (take 2 (drop 1 f))
          \<and> message_length (take 2 (drop 1 f)) = (unat (f ! 1) * 256 + unat (f ! 2)) mod 2 ^ 10
          \<and> 6 \<le> length f \<and> length f \<le> 1029)"
proof -
  from read_rtcm_packet_shape [OF assms] obtain rl msg crc s1 s2 s3 where
    f: "f = [0xD3] @ rl @ msg @ crc" and r2: "rd s1 2 = (Inr rl, s2)" by blast
  have head: "f \<noteq> [] \<and> hd f = 0xD3" by (simp add: f)
  have "length f = 6 + message_length (take 2 (drop 1 f))
          \<and> message_length (take 2 (drop 1 f)) = (unat (f ! 1) * 256 + unat (f ! 2)) mod 2 ^ 10
          \<and> 6 \<le> length f \<and> length f \<le> 1029" if ex: "exact_reads rd"
  proof -
    have len: "length f = 6 + message_length (take 2 (drop 1 f))"
      by (rule frame_length_exact [OF ex assms])
    from ex r2 have "length rl = 2" unfolding exact_reads_def by blast
    then obtain hi lo where rl: "rl = [hi, lo]"
      by (auto simp: numeral_2_eq_2 length_Suc_conv)
    have fld: "message_length (take 2 (drop 1 f)) = (unat (f ! 1) * 256 + unat (f ! 2)) mod 2 ^ 10"
      by (simp add: f rl message_length_two)
    have bound: "message_length (take 2 (drop 1 f)) < 1024" by (rule message_length_bound)
    from len have lo: "6 \<le> length f" by linarith
    from len bound have up: "length f \<le> 1029" by linarith
    from len fld lo up show ?thesis by blast
  qed
  with head show ?thesis by blast
qed

text \<open>A frame with all six reserved bits set and one payload byte, after a stray byte.\<close>

theorem frame_invariant_witness:
  "read_rtcm_packet (serial_read Raises) [0x00, 0xD3, 0xFC, 0x01, 0x7F, 0xAA, 0xBB, 0xCC, 0xD3]
     = Some (Inr [0xD3, 0xFC, 0x01, 0x7F, 0xAA, 0xBB, 0xCC], [0xD3])
   \<and> exact_reads (serial_read Raises)
   \<and> hd [0xD3, 0xFC, 0x01, 0x7F, 0xAA, 0xBB, 0xCC :: byte] = 0xD3
   \<and> length [0xD3, 0xFC, 0x01, 0x7F, 0xAA, 0xBB, 0xCC :: byte] = 6 + message_length [0xFC, 0x01]
   \<and> message_length [0xFC, 0x01] = 1"
proof -
  have rd: "read_rtcm_packet (serial_read Raises) [0x00, 0xD3, 0xFC, 0x01, 0x7F, 0xAA, 0xBB, 0xCC, 0xD3]
     = Some (Inr [0xD3, 0xFC, 0x01, 0x7F, 0xAA, 0xBB, 0xCC], [0xD3])"
    using read_garbage [of "[0x00]" Raises "[0xD3, 0xFC, 0x01, 0x7F, 0xAA, 0xBB, 0xCC, 0xD3]"]
      read_frame [of "[0x7F]" "0xFC" "0x01" "[0xAA, 0xBB, 0xCC]" Raises "[0xD3]"]
    by (simp add: message_length_two)
  from frame_invariant [OF rd] exact_reads_Raises rd show ?thesis
    by (simp add: message_length_two)
qed

section \<open>Properties of the timestamp and of one turn of the loop\<close>










lemma bench_simps:
  "ser_read (bench m clk disc cls) = serial_read m"
  "ser_flushOutput (bench m clk disc cls) s = (None, s)"
  "ser_close (bench m clk disc cls) s = (cls, s)"
  "mqtt_loop_start (bench m clk disc cls) c = (None, c)"
  "mqtt_publish (bench m clk disc cls) c tp payload qos = (None, Suc c)"
  "mqtt_disconnect (bench m clk disc cls) c = (disc, c)"
  "time_ms (bench m clk disc cls) = clk"
  by (simp_all add: bench_def)



section \<open>The claim about the published payload\<close>




section \<open>The claim about the credential files\<close>

lemma mtls_cert_path_cases:
  "mtls_cert_path exists d =
     (if \<not> exists (Div (Path d) ''device.crt'')
        then ([], Inl (ArgumentTypeError ''device.crt''))
      else if \<not> exists (Div (Path d) ''device.key'')
        then ([Info_using ''device.crt'' (Path d)], Inl (ArgumentTypeError ''device.key''))
      else if \<not> exists (Div (Path d) ''AmazonRootCA1.pem'')
        then ([Info_using ''device.crt'' (Path d), Info_using ''device.key'' (Path d)],
              Inl (ArgumentTypeError ''AmazonRootCA1.pem''))
      else ([Info_using ''device.crt'' (Path d), Info_using ''device.key'' (Path d),
             Info_using ''AmazonRootCA1.pem'' (Path d)], Inr (Path d)))"
  by (simp add: mtls_cert_path_def Let_def)

lemma startup_rejected:
  assumes "\<not> (exists (Div (Path (cert_path a)) ''device.crt'')
            \<and> exists (Div (Path (cert_path a)) ''device.key'')
            \<and> exists (Div (Path (cert_path a)) ''AmazonRootCA1.pem''))"
  shows "\<exists>log file. startup exists nt a r = (log, Inl (ArgumentTypeError file))
           \<and> \<not> exists (Div (Path (cert_path a)) file)
           \<and> (\<forall>e \<in> set log. \<exists>f p. e = Info_using f p)"
  using assms by (auto simp: startup_def mtls_cert_path_cases)

text \<open>Start-up after the check has accepted the directory.\<close>

lemma startup_checked:
  assumes "exists (Div (Path (cert_path a)) ''device.crt'')"
    and "exists (Div (Path (cert_path a)) ''device.key'')"
    and "exists (Div (Path (cert_path a)) ''AmazonRootCA1.pem'')"
  shows "startup exists nt a r =
     (case serial_Serial nt (serial_port a) (baud_rate a) of
        Some e \<Rightarrow>
          ([Info_using ''device.crt'' (Path (cert_path a)),
            Info_using ''device.key'' (Path (cert_path a)),
            Info_using ''AmazonRootCA1.pem'' (Path (cert_path a)),
            Info_attaching (serial_port a) (baud_rate a),
            Serial_open (serial_port a) (baud_rate a)], Inl e)
      | None \<Rightarrow>
          (case create_client nt (make_config a (Path (cert_path a)) r) of
             (calls, Some e) \<Rightarrow>
               ([Info_using ''device.crt'' (Path (cert_path a)),
                 Info_using ''device.key'' (Path (cert_path a)),
                 Info_using ''AmazonRootCA1.pem'' (Path (cert_path a)),
                 Info_attaching (serial_port a) (baud_rate a),
                 Serial_open (serial_port a) (baud_rate a)] @ calls, Inl e)
           | (calls, None) \<Rightarrow>
               ([Info_using ''device.crt'' (Path (cert_path a)),
                 Info_using ''device.key'' (Path (cert_path a)),
                 Info_using ''AmazonRootCA1.pem'' (Path (cert_path a)),
                 Info_attaching (serial_port a) (baud_rate a),
                 Serial_open (serial_port a) (baud_rate a)] @ calls,
                Inr (make_config a (Path (cert_path a)) r))))"
  using assms by (simp add: startup_def mtls_cert_path_cases Let_def split: option.splits prod.splits)

lemma create_client_config:
  "create_client nt (make_config a cert r) =
     (case mqtt_Client nt of
        Some e \<Rightarrow> ([Client_new], Some e)
      | None \<Rightarrow>
          (case client_tls_set nt (Div cert ''AmazonRootCA1.pem'') (Div cert ''device.crt'')
                  (Div cert ''device.key'') of
             Some e \<Rightarrow>
               ([Client_new, Tls_set (Div cert ''AmazonRootCA1.pem'') (Div cert ''device.crt'')
                               (Div cert ''device.key'')], Some e)
           | None \<Rightarrow>
               ([Client_new, Tls_set (Div cert ''AmazonRootCA1.pem'') (Div cert ''device.crt'')
                               (Div cert ''device.key''),
                 Connect (mqtt_uri a) 8883],
                client_connect nt (mqtt_uri a) 8883)))"
  by (simp add: create_client_def make_config_def Let_def split: option.splits)

lemma startup_connect_attempted:
  "(\<exists>b p. Connect b p \<in> set (fst (startup exists nt a r)))
     \<longleftrightarrow> (exists (Div (Path (cert_path a)) ''device.crt'')
          \<and> exists (Div (Path (cert_path a)) ''device.key'')
          \<and> exists (Div (Path (cert_path a)) ''AmazonRootCA1.pem'')
          \<and> serial_Serial nt (serial_port a) (baud_rate a) = None
          \<and> mqtt_Client nt = None
          \<and> client_tls_set nt (Div (Path (cert_path a)) ''AmazonRootCA1.pem'')
              (Div (Path (cert_path a)) ''device.crt'') (Div (Path (cert_path a)) ''device.key'') = None)"
proof (cases "exists (Div (Path (cert_path a)) ''device.crt'')
          \<and> exists (Div (Path (cert_path a)) ''device.key'')
          \<and> exists (Div (Path (cert_path a)) ''AmazonRootCA1.pem'')")
  case True
  then show ?thesis
    by (auto simp: startup_checked create_client_config split: option.splits)
next
  case False
  from startup_rejected [OF False, of nt r] obtain log name
    where run: "startup exists nt a r = (log, Inl (ArgumentTypeError name))"
      and infos: "\<forall>e \<in> set log. \<exists>f p. e = Info_using f p"
    by blast
  from infos have "\<not> (\<exists>b p. Connect b p \<in> set log)"
    by auto
  moreover from run have "fst (startup exists nt a r) = log"
    by simp
  ultimately have "\<not> (\<exists>b p. Connect b p \<in> set (fst (startup exists nt a r)))"
    by simp
  with False show ?thesis
    by blast
qed

lemma startup_connected:
  assumes "exists (Div (Path (cert_path a)) ''device.crt'')"
    and "exists (Div (Path (cert_path a)) ''device.key'')"
    and "exists (Div (Path (cert_path a)) ''AmazonRootCA1.pem'')"
  shows "(\<exists>log cfg. startup exists nt a r = (log, Inr cfg))
     \<longleftrightarrow> (serial_Serial nt (serial_port a) (baud_rate a) = None
          \<and> mqtt_Client nt = None
          \<and> client_tls_set nt (Div (Path (cert_path a)) ''AmazonRootCA1.pem'')
              (Div (Path (cert_path a)) ''device.crt'') (Div (Path (cert_path a)) ''device.key'') = None
          \<and> client_connect nt (mqtt_uri a) 8883 = None)"
    and "startup exists nt a r = (log, Inr cfg) \<Longrightarrow>
           cfg = make_config a (Path (cert_path a)) r \<and> last log = Connect (mqtt_uri a) 8883"
    and "startup exists nt a r = (log, Inl e) \<Longrightarrow>
           serial_Serial nt (serial_port a) (baud_rate a) = Some e
         \<or> mqtt_Client nt = Some e
         \<or> client_tls_set nt (Div (Path (cert_path a)) ''AmazonRootCA1.pem'')
              (Div (Path (cert_path a)) ''device.crt'') (Div (Path (cert_path a)) ''device.key'') = Some e
         \<or> client_connect nt (mqtt_uri a) 8883 = Some e"
    and "\<exists>calls. fst (startup exists nt a r) =
           [Info_using ''device.crt'' (Path (cert_path a)),
            Info_using ''device.key'' (Path (cert_path a)),
            Info_using ''AmazonRootCA1.pem'' (Path (cert_path a)),
            Info_attaching (serial_port a) (baud_rate a),
            Serial_open (serial_port a) (baud_rate a)] @ calls"
  using assms
  by (auto simp: startup_checked create_client_config split: option.splits)

text \<open>
  C6. The check accepts a directory if and only if the three names \<^verbatim>\<open>device.crt\<close>,
  \<^verbatim>\<open>device.key\<close> and \<^verbatim>\<open>AmazonRootCA1.pem\<close> exist in it. If one is missing, start-up
  ends with \<^verbatim>\<open>ArgumentTypeError\<close> for a missing name, whatever the serial port and
  the transport would answer, and by then nothing has happened but log lines about the
  names found: the serial port is not opened, the client is not created, no connection
  is attempted. A connection is attempted exactly when all three exist and opening the
  serial port, creating the client and its \<^verbatim>\<open>tls_set\<close> return. If all three exist,
  start-up goes on to open the serial port; it returns the configuration exactly when
  these calls and \<^verbatim>\<open>connect\<close> return, the trace then ending with the connection
  attempt to the broker on port 8883, and otherwise it ends with the exception one of
  them raised.
\<close>

theorem credential_check:
  "((\<exists>log p. mtls_cert_path exists d = (log, Inr p))
      \<longleftrightarrow> exists (Div (Path d) ''device.crt'') \<and> exists (Div (Path d) ''device.key'')
          \<and> exists (Div (Path d) ''AmazonRootCA1.pem''))
   \<and> (\<not> (exists (Div (Path (cert_path a)) ''device.crt'')
          \<and> exists (Div (Path (cert_path a)) ''device.key'')
          \<and> exists (Div (Path (cert_path a)) ''AmazonRootCA1.pem'')) \<longrightarrow>
        (\<exists>log file. startup exists nt a r = (log, Inl (ArgumentTypeError file))
           \<and> \<not> exists (Div (Path (cert_path a)) file)
           \<and> (\<forall>e \<in> set log. \<exists>f p. e = Info_using f p)))
   \<and> ((\<exists>b p. Connect b p \<in> set (fst (startup exists nt a r)))
        \<longleftrightarrow> (exists (Div (Path (cert_path a)) ''device.crt'')
          \<and> exists (Div (Path (cert_path a)) ''device.key'')
          \<and> exists (Div (Path (cert_path a)) ''AmazonRootCA1.pem'')
             \<and> serial_Serial nt (serial_port a) (baud_rate a) = None
             \<and> mqtt_Client nt = None
             \<and> client_tls_set nt (Div (Path (cert_path a)) ''AmazonRootCA1.pem'')
              (Div (Path (cert_path a)) ''device.crt'') (Div (Path (cert_path a)) ''device.key'') = None))
   \<and> (exists (Div (Path (cert_path a)) ''device.crt'')
          \<and> exists (Div (Path (cert_path a)) ''device.key'')
          \<and> exists (Div (Path (cert_path a)) ''AmazonRootCA1.pem'') \<longrightarrow>
        ((\<exists>log cfg. startup exists nt a r = (log, Inr cfg))
           \<longleftrightarrow> (serial_Serial nt (serial_port a) (baud_rate a) = None
                \<and> mqtt_Client nt = None
                \<and> client_tls_set nt (Div (Path (cert_path a)) ''AmazonRootCA1.pem'')
              (Div (Path (cert_path a)) ''device.crt'') (Div (Path (cert_path a)) ''device.key'') = None
                \<and> client_connect nt (mqtt_uri a) 8883 = None))
        \<and> (\<forall>log cfg. startup exists nt a r = (log, Inr cfg) \<longrightarrow>
             cfg = make_config a (Path (cert_path a)) r \<and> last log = Connect (mqtt_uri a) 8883)
        \<and> (\<forall>log e. startup exists nt a r = (log, Inl e) \<longrightarrow>
             serial_Serial nt (serial_port a) (baud_rate a) = Some e
           \<or> mqtt_Client nt = Some e
           \<or> client_tls_set nt (Div (Path (cert_path a)) ''AmazonRootCA1.pem'')
                (Div (Path (cert_path a)) ''device.crt'') (Div (Path (cert_path a)) ''device.key'') = Some e
           \<or> client_connect nt (mqtt_uri a) 8883 = Some e)
        \<and> (\<exists>calls. fst (startup exists nt a r) =
             [Info_using ''device.crt'' (Path (cert_path a)),
              Info_using ''device.key'' (Path (cert_path a)),
              Info_using ''AmazonRootCA1.pem'' (Path (cert_path a)),
              Info_attaching (serial_port a) (baud_rate a),
              Serial_open (serial_port a) (baud_rate a)] @ calls))"
proof -
  have iff: "(\<exists>log p. mtls_cert_path exists d = (log, Inr p))
      \<longleftrightarrow> exists (Div (Path d) ''device.crt'') \<and> exists (Div (Path d) ''device.key'')
          \<and> exists (Div (Path d) ''AmazonRootCA1.pem'')"
    by (simp add: mtls_cert_path_cases)
  have rejected: "\<not> (exists (Div (Path (cert_path a)) ''device.crt'')
          \<and> exists (Div (Path (cert_path a)) ''device.key'')
          \<and> exists (Div (Path (cert_path a)) ''AmazonRootCA1.pem'')) \<longrightarrow>
        (\<exists>log file. startup exists nt a r = (log, Inl (ArgumentTypeError file))
           \<and> \<not> exists (Div (Path (cert_path a)) file)
           \<and> (\<forall>e \<in> set log. \<exists>f p. e = Info_using f p))"
    using startup_rejected [of exists a nt r] by blast
  have accepted: "exists (Div (Path (cert_path a)) ''device.crt'')
          \<and> exists (Div (Path (cert_path a)) ''device.key'')
          \<and> exists (Div (Path (cert_path a)) ''AmazonRootCA1.pem'') \<longrightarrow>
        ((\<exists>log cfg. startup exists nt a r = (log, Inr cfg))
           \<longleftrightarrow> (serial_Serial nt (serial_port a) (baud_rate a) = None
                \<and> mqtt_Client nt = None
                \<and> client_tls_set nt (Div (Path (cert_path a)) ''AmazonRootCA1.pem'')
              (Div (Path (cert_path a)) ''device.crt'') (Div (Path (cert_path a)) ''device.key'') = None
                \<and> client_connect nt (mqtt_uri a) 8883 = None))
        \<and> (\<forall>log cfg. startup exists nt a r = (log, Inr cfg) \<longrightarrow>
             cfg = make_config a (Path (cert_path a)) r \<and> last log = Connect (mqtt_uri a) 8883)
        \<and> (\<forall>log e. startup exists nt a r = (log, Inl e) \<longrightarrow>
             serial_Serial nt (serial_port a) (baud_rate a) = Some e
           \<or> mqtt_Client nt = Some e
           \<or> client_tls_set nt (Div (Path (cert_path a)) ''AmazonRootCA1.pem'')
                (Div (Path (cert_path a)) ''device.crt'') (Div (Path (cert_path a)) ''device.key'') = Some e
           \<or> client_connect nt (mqtt_uri a) 8883 = Some e)
        \<and> (\<exists>calls. fst (startup exists nt a r) =
             [Info_using ''device.crt'' (Path (cert_path a)),
              Info_using ''device.key'' (Path (cert_path a)),
              Info_using ''AmazonRootCA1.pem'' (Path (cert_path a)),
              Info_attaching (serial_port a) (baud_rate a),
              Serial_open (serial_port a) (baud_rate a)] @ calls)"
  proof (intro impI conjI allI; (elim conjE)?)
    assume crt: "exists (Div (Path (cert_path a)) ''device.crt'')"
      and key: "exists (Div (Path (cert_path a)) ''device.key'')"
      and ca: "exists (Div (Path (cert_path a)) ''AmazonRootCA1.pem'')"
    show "(\<exists>log cfg. startup exists nt a r = (log, Inr cfg))
           \<longleftrightarrow> (serial_Serial nt (serial_port a) (baud_rate a) = None
                \<and> mqtt_Client nt = None
                \<and> client_tls_set nt (Div (Path (cert_path a)) ''AmazonRootCA1.pem'')
              (Div (Path (cert_path a)) ''device.crt'') (Div (Path (cert_path a)) ''device.key'') = None
                \<and> client_connect nt (mqtt_uri a) 8883 = None)"
      by (rule startup_connected(1) [OF crt key ca])
    show "\<exists>calls. fst (startup exists nt a r) =
             [Info_using ''device.crt'' (Path (cert_path a)),
              Info_using ''device.key'' (Path (cert_path a)),
              Info_using ''AmazonRootCA1.pem'' (Path (cert_path a)),
              Info_attaching (serial_port a) (baud_rate a),
              Serial_open (serial_port a) (baud_rate a)] @ calls"
      by (rule startup_connected(4) [OF crt key ca])
    {
      fix log cfg
      assume "startup exists nt a r = (log, Inr cfg)"
      then show "cfg = make_config a (Path (cert_path a)) r"
        and "last log = Connect (mqtt_uri a) 8883"
        using startup_connected(2) [OF crt key ca] by blast+
    }
    {
      fix log e
      assume "startup exists nt a r = (log, Inl e)"
      then show "serial_Serial nt (serial_port a) (baud_rate a) = Some e
           \<or> mqtt_Client nt = Some e
           \<or> client_tls_set nt (Div (Path (cert_path a)) ''AmazonRootCA1.pem'')
                (Div (Path (cert_path a)) ''device.crt'') (Div (Path (cert_path a)) ''device.key'') = Some e
           \<or> client_connect nt (mqtt_uri a) 8883 = Some e"
        by (rule startup_connected(3) [OF crt key ca])
    }
  qed
  from iff rejected startup_connect_attempted [of exists nt a r] accepted
  show ?thesis by (intro conjI)
qed

text \<open>
  A directory without the private key, and one with all three files: with collaborators
  that all return, with a serial port that cannot be opened, and with a transport whose
  \<^verbatim>\<open>tls_set\<close> raises.
\<close>

theorem credential_check_witness:
  "startup (\<lambda>p. p \<noteq> Div (Path ''/etc/certs'') ''device.key'') (net0 None None None None) args0 42
     = ([Info_using ''device.crt'' (Path ''/etc/certs'')], Inl (ArgumentTypeError ''device.key''))
   \<and> (\<nexists>log p. mtls_cert_path (\<lambda>p. p \<noteq> Div (Path ''/etc/certs'') ''device.key'') ''/etc/certs''
                = (log, Inr p))
   \<and> (\<exists>log p. mtls_cert_path (\<lambda>p. True) ''/etc/certs'' = (log, Inr p))
   \<and> (\<exists>log name. startup (\<lambda>p. p \<noteq> Div (Path ''/etc/certs'') ''device.key'')
                     (net0 None None None None) args0 42 = (log, Inl (ArgumentTypeError name))
         \<and> (\<forall>e \<in> set log. \<exists>f p. e = Info_using f p))
   \<and> \<not> (\<exists>b p. Connect b p \<in> set (fst (startup (\<lambda>p. p \<noteq> Div (Path ''/etc/certs'') ''device.key'')
                                         (net0 None None None None) args0 42)))
   \<and> (\<exists>b p. Connect b p \<in> set (fst (startup (\<lambda>p. True) (net0 None None None None) args0 42)))
   \<and> (\<exists>log cfg. startup (\<lambda>p. True) (net0 None None None None) args0 42 = (log, Inr cfg))
   \<and> startup (\<lambda>p. True) (net0 None None None None) args0 42
     = ([Info_using ''device.crt'' (Path ''/etc/certs''), Info_using ''device.key'' (Path ''/etc/certs''),
         Info_using ''AmazonRootCA1.pem'' (Path ''/etc/certs''),
         Info_attaching ''/dev/ttyACM0'' 115200, Serial_open ''/dev/ttyACM0'' 115200,
         Client_new,
         Tls_set (Div (Path ''/etc/certs'') ''AmazonRootCA1.pem'') (Div (Path ''/etc/certs'') ''device.crt'')
           (Div (Path ''/etc/certs'') ''device.key''),
         Connect ''broker.example'' 8883],
        Inr (make_config args0 (Path ''/etc/certs'') 42))
   \<and> startup (\<lambda>p. True) (net0 (Some SerialException) None None None) args0 42
     = ([Info_using ''device.crt'' (Path ''/etc/certs''), Info_using ''device.key'' (Path ''/etc/certs''),
         Info_using ''AmazonRootCA1.pem'' (Path ''/etc/certs''),
         Info_attaching ''/dev/ttyACM0'' 115200, Serial_open ''/dev/ttyACM0'' 115200],
        Inl SerialException)
   \<and> startup (\<lambda>p. True) (net0 None None (Some TransportError) None) args0 42
     = ([Info_using ''device.crt'' (Path ''/etc/certs''), Info_using ''device.key'' (Path ''/etc/certs''),
         Info_using ''AmazonRootCA1.pem'' (Path ''/etc/certs''),
         Info_attaching ''/dev/ttyACM0'' 115200, Serial_open ''/dev/ttyACM0'' 115200,
         Client_new,
         Tls_set (Div (Path ''/etc/certs'') ''AmazonRootCA1.pem'') (Div (Path ''/etc/certs'') ''device.crt'')
           (Div (Path ''/etc/certs'') ''device.key'')],
        Inl TransportError)"
proof -
  note missing = credential_check
      [where exists = "\<lambda>p. p \<noteq> Div (Path ''/etc/certs'') ''device.key''" and d = "''/etc/certs''"
         and nt = "net0 None None None None" and a = args0 and r = 42]
  note present = credential_check
      [where exists = "\<lambda>p. True" and d = "''/etc/certs''"
         and nt = "net0 None None None None" and a = args0 and r = 42]
  have a: "\<nexists>log p. mtls_cert_path (\<lambda>p. p \<noteq> Div (Path ''/etc/certs'') ''device.key'') ''/etc/certs''
                = (log, Inr p)"
    using missing [THEN conjunct1] by simp
  have b: "\<exists>log p. mtls_cert_path (\<lambda>p. True) ''/etc/certs'' = (log, Inr p)"
    using present [THEN conjunct1] by simp
  have c: "\<exists>log name. startup (\<lambda>p. p \<noteq> Div (Path ''/etc/certs'') ''device.key'')
                     (net0 None None None None) args0 42 = (log, Inl (ArgumentTypeError name))
         \<and> (\<forall>e \<in> set log. \<exists>f p. e = Info_using f p)"
    using missing [THEN conjunct2, THEN conjunct1] by (simp add: args0_def) blast
  have d: "\<not> (\<exists>b p. Connect b p \<in> set (fst (startup (\<lambda>p. p \<noteq> Div (Path ''/etc/certs'') ''device.key'')
                                         (net0 None None None None) args0 42)))"
    using missing [THEN conjunct2, THEN conjunct2, THEN conjunct1] by (simp add: args0_def)
  have e: "\<exists>b p. Connect b p \<in> set (fst (startup (\<lambda>p. True) (net0 None None None None) args0 42))"
    using present [THEN conjunct2, THEN conjunct2, THEN conjunct1] by (simp add: args0_def net0_def)
  have f: "\<exists>log cfg. startup (\<lambda>p. True) (net0 None None None None) args0 42 = (log, Inr cfg)"
    using present [THEN conjunct2, THEN conjunct2, THEN conjunct2] by (simp add: args0_def net0_def)
  have g: "startup (\<lambda>p. p \<noteq> Div (Path ''/etc/certs'') ''device.key'') (net0 None None None None) args0 42
     = ([Info_using ''device.crt'' (Path ''/etc/certs'')], Inl (ArgumentTypeError ''device.key''))"
    by (simp add: startup_def mtls_cert_path_cases args0_def)
  have h: "startup (\<lambda>p. True) (net0 None None None None) args0 42
     = ([Info_using ''device.crt'' (Path ''/etc/certs''), Info_using ''device.key'' (Path ''/etc/certs''),
         Info_using ''AmazonRootCA1.pem'' (Path ''/etc/certs''),
         Info_attaching ''/dev/ttyACM0'' 115200, Serial_open ''/dev/ttyACM0'' 115200,
         Client_new,
         Tls_set (Div (Path ''/etc/certs'') ''AmazonRootCA1.pem'') (Div (Path ''/etc/certs'') ''device.crt'')
           (Div (Path ''/etc/certs'') ''device.key''),
         Connect ''broker.example'' 8883],
        Inr (make_config args0 (Path ''/etc/certs'') 42))"
    by (simp add: startup_checked create_client_config args0_def net0_def)
  have i: "startup (\<lambda>p. True) (net0 (Some SerialException) None None None) args0 42
     = ([Info_using ''device.crt'' (Path ''/etc/certs''), Info_using ''device.key'' (Path ''/etc/certs''),
         Info_using ''AmazonRootCA1.pem'' (Path ''/etc/certs''),
         Info_attaching ''/dev/ttyACM0'' 115200, Serial_open ''/dev/ttyACM0'' 115200],
        Inl SerialException)"
    by (simp add: startup_checked create_client_config args0_def net0_def)
  have j: "startup (\<lambda>p. True) (net0 None None (Some TransportError) None) args0 42
     = ([Info_using ''device.crt'' (Path ''/etc/certs''), Info_using ''device.key'' (Path ''/etc/certs''),
         Info_using ''AmazonRootCA1.pem'' (Path ''/etc/certs''),
         Info_attaching ''/dev/ttyACM0'' 115200, Serial_open ''/dev/ttyACM0'' 115200,
         Client_new,
         Tls_set (Div (Path ''/etc/certs'') ''AmazonRootCA1.pem'') (Div (Path ''/etc/certs'') ''device.crt'')
           (Div (Path ''/etc/certs'') ''device.key'')],
        Inl TransportError)"
    by (simp add: startup_checked create_client_config args0_def net0_def)
  from g a b c d e f h i j show ?thesis by (intro conjI)
qed

section \<open>The claim about the shutdown\<close>

lemma finally_block_disconnected:
  assumes "mqtt_disconnect io (mqtt_client w) = (None, c')"
  shows "finally_block io w =
           (fst (ser_close io (ser w)),
            w\<lparr>ser := snd (ser_close io (ser w)), mqtt_client := c',
              trace := trace w @ [Info ''Disconnecting from MQTT'', Disconnect,
                                  Info ''Closing serial port'', Close]\<rparr>)"
  using assms by (simp add: finally_block_def Let_def split: prod.splits)

lemma finally_block_disconnect_raises:
  assumes "mqtt_disconnect io (mqtt_client w) = (Some e, c')"
  shows "finally_block io w =
           (Some e, w\<lparr>mqtt_client := c',
                       trace := trace w @ [Info ''Disconnecting from MQTT'', Disconnect]\<rparr>)"
  using assms by (simp add: finally_block_def Let_def)

lemma supervise_exit:
  "try_body io tp w = Some (err, w1) \<Longrightarrow>
     supervise io tp w = Some (finally_block io (handler err w1))"
  by (simp add: supervise_def)

lemma streaming_empty_line:
  "streaming (bench Raises clk disc cls) tp \<lparr>ser = [], mqtt_client = c, clock_reads = k, trace = tr\<rparr>
     = Some (SerialException, \<lparr>ser = [], mqtt_client = c, clock_reads = k, trace = tr\<rparr>)"
  by (subst streaming.simps)
     (simp add: loop_body_def bench_simps read_rtcm_packet_def find_preamble.simps)

lemma try_body_empty_line:
  "try_body (bench Raises clk disc cls) tp (world0 [])
     = Some (SerialException,
         \<lparr>ser = [], mqtt_client = 0, clock_reads = 0, trace = [Flush_output, Loop_start, Sleep 1]\<rparr>)"
  by (simp add: try_body_def world0_def bench_simps Let_def streaming_empty_line)

text \<open>
  C7, as amended. Whatever exception ends the body of the \<^verbatim>\<open>try\<close>, an interrupt or
  an error, its handler runs and then the \<^verbatim>\<open>finally\<close> block. The block calls
  \<^verbatim>\<open>disconnect\<close>; when that call returns, it calls \<^verbatim>\<open>close\<close> on the serial port, and
  what \<^verbatim>\<open>close\<close> raises leaves the block. When \<^verbatim>\<open>disconnect\<close> raises, the exception
  leaves the block at once: it is not logged and \<^verbatim>\<open>close\<close> is not called.
\<close>

theorem shutdown_sequence:
  "(try_body io tp w = Some (err, w1) \<longrightarrow>
      supervise io tp w = Some (finally_block io (handler err w1)))
   \<and> (mqtt_disconnect io (mqtt_client w2) = (None, c') \<longrightarrow>
        finally_block io w2 =
           (fst (ser_close io (ser w2)),
            w2\<lparr>ser := snd (ser_close io (ser w2)), mqtt_client := c',
               trace := trace w2 @ [Info ''Disconnecting from MQTT'', Disconnect,
                                   Info ''Closing serial port'', Close]\<rparr>))
   \<and> (mqtt_disconnect io (mqtt_client w2) = (Some e, c') \<longrightarrow>
        finally_block io w2 =
           (Some e, w2\<lparr>mqtt_client := c',
                        trace := trace w2 @ [Info ''Disconnecting from MQTT'', Disconnect]\<rparr>))"
  using supervise_exit [of io tp w err w1] finally_block_disconnected [of io w2 c']
    finally_block_disconnect_raises [of io w2 e c']
  by blast

text \<open>
  A run on a line with no bytes where \<^verbatim>\<open>close\<close> raises, and a shutdown after an
  interrupt where \<^verbatim>\<open>disconnect\<close> raises.
\<close>

theorem shutdown_sequence_witness:
  "supervise (bench Raises (\<lambda>k. 0) None (Some SerialException)) ''ntrip/data'' (world0 [])
     = Some (Some SerialException,
         \<lparr>ser = [], mqtt_client = 0, clock_reads = 0,
          trace = [Flush_output, Loop_start, Sleep 1,
                   Error_fatal SerialException, Error ''Shutting down...'',
                   Info ''Disconnecting from MQTT'', Disconnect,
                   Info ''Closing serial port'', Close]\<rparr>)
   \<and> finally_block (bench Raises (\<lambda>k. 0) (Some TransportError) None)
        \<lparr>ser = [], mqtt_client = 0, clock_reads = 0, trace = [Print [], Info ''Received KeyboardInterrupt'']\<rparr>
     = (Some TransportError,
         \<lparr>ser = [], mqtt_client = 0, clock_reads = 0,
          trace = [Print [], Info ''Received KeyboardInterrupt'',
                   Info ''Disconnecting from MQTT'', Disconnect]\<rparr>)"
proof -
  let ?io = "bench Raises (\<lambda>k. 0) None (Some SerialException)"
  let ?w1 = "\<lparr>ser = [], mqtt_client = 0::nat, clock_reads = 0,
               trace = [Flush_output, Loop_start, Sleep 1]\<rparr> :: (bytes, nat) world"
  have s: "supervise ?io ''ntrip/data'' (world0 []) = Some (finally_block ?io (handler SerialException ?w1))"
    using shutdown_sequence [where io = ?io and tp = "''ntrip/data''" and w = "world0 []"
        and err = SerialException and ?w1.0 = ?w1, THEN conjunct1]
      try_body_empty_line [of "\<lambda>k. 0" None "Some SerialException" "''ntrip/data''"]
    by simp
  have f: "finally_block ?io (handler SerialException ?w1)
     = (Some SerialException,
         \<lparr>ser = [], mqtt_client = 0, clock_reads = 0,
          trace = [Flush_output, Loop_start, Sleep 1,
                   Error_fatal SerialException, Error ''Shutting down...'',
                   Info ''Disconnecting from MQTT'', Disconnect,
                   Info ''Closing serial port'', Close]\<rparr>)"
    using shutdown_sequence [where io = ?io and ?w2.0 = "handler SerialException ?w1" and c' = 0,
        THEN conjunct2, THEN conjunct1]
    by (simp add: bench_simps handler_def)
  have g: "finally_block (bench Raises (\<lambda>k. 0) (Some TransportError) None)
        \<lparr>ser = [], mqtt_client = 0, clock_reads = 0, trace = [Print [], Info ''Received KeyboardInterrupt'']\<rparr>
     = (Some TransportError,
         \<lparr>ser = [], mqtt_client = 0, clock_reads = 0,
          trace = [Print [], Info ''Received KeyboardInterrupt'',
                   Info ''Disconnecting from MQTT'', Disconnect]\<rparr>)"
    using shutdown_sequence [where io = "bench Raises (\<lambda>k. 0) (Some TransportError) None"
        and ?w2.0 = "\<lparr>ser = [], mqtt_client = 0, clock_reads = 0,
                       trace = [Print [], Info ''Received KeyboardInterrupt'']\<rparr>"
        and e = TransportError and c' = 0, THEN conjunct2, THEN conjunct2]
    by (simp add: bench_simps)
  from s f g show ?thesis by simp
qed

text \<open>
  C7 as stated has the two attempts independent and their failures logged and never
  raised again. On a line with no bytes and a transport whose \<^verbatim>\<open>disconnect\<close> raises, the
  run ends with that exception; the trace ends with the call of \<^verbatim>\<open>disconnect\<close>, with
  no log line for the failure and no call of \<^verbatim>\<open>close\<close>.
\<close>

theorem disconnect_failure_counterexample:
  "supervise (bench Raises (\<lambda>k. 0) (Some TransportError) None) ''ntrip/data'' (world0 [])
     = Some (Some TransportError,
         \<lparr>ser = [], mqtt_client = 0, clock_reads = 0,
          trace = [Flush_output, Loop_start, Sleep 1,
                   Error_fatal SerialException, Error ''Shutting down...'',
                   Info ''Disconnecting from MQTT'', Disconnect]\<rparr>)"
  by (simp add: supervise_def try_body_empty_line handler_def finally_block_def bench_simps Let_def)

section \<open>The claim about the order of publishing\<close>






section \<open>The claim about the client identifier\<close>

lemma digit_inj: "a < 10 \<Longrightarrow> b < 10 \<Longrightarrow> digit a = digit b \<longleftrightarrow> a = b"
proof
  assume "a < 10" "b < 10" "digit a = digit b"
  then have "of_char (char_of (48 + a)) = (of_char (char_of (48 + b)) :: nat)"
    by (simp add: digit_def)
  with \<open>a < 10\<close> \<open>b < 10\<close> show "a = b" by (simp add: of_char_of)
qed simp

lemma format_02_two_digits:
  assumes "10 \<le> r" and "r \<le> 99"
  shows "format_02 r = [digit (r div 10), digit (r mod 10)]"
proof -
  from assms have "r div 10 < 10" by simp
  then have "str_nat r = [digit (r div 10), digit (r mod 10)]"
    using assms by (simp add: str_nat.simps [of r] str_nat.simps [of "r div 10"])
  then show ?thesis by (simp add: format_02_def)
qed

lemma make_client_id_inj:
  assumes "10 \<le> r1" "r1 \<le> 99" "10 \<le> r2" "r2 \<le> 99"
  shows "make_client_id r1 = make_client_id r2 \<longleftrightarrow> r1 = r2"
proof
  assume eq: "make_client_id r1 = make_client_id r2"
  from assms have lt: "r1 div 10 < 10" "r1 mod 10 < 10" "r2 div 10 < 10" "r2 mod 10 < 10"
    by simp_all
  from eq have "digit (r1 div 10) = digit (r2 div 10)" "digit (r1 mod 10) = digit (r2 mod 10)"
    by (simp_all add: make_client_id_def format_02_two_digits assms)
  with lt have "r1 div 10 = r2 div 10" "r1 mod 10 = r2 mod 10"
    by (simp_all add: digit_inj)
  then show "r1 = r2" by (metis div_mult_mod_eq)
qed simp

text \<open>Only 90 numbers can be drawn, so among more than 90 draws two are equal.\<close>

lemma client_id_collision:
  assumes "\<forall>i < n. 10 \<le> draw i \<and> draw i \<le> (99::nat)" and "90 < (n::nat)"
  shows "\<exists>i < n. \<exists>j < n. i \<noteq> j \<and> make_client_id (draw i) = make_client_id (draw j)"
proof -
  have sub: "draw ` {..<n} \<subseteq> {10..99}" using assms(1) by auto
  have "card (draw ` {..<n}) \<le> card {10..99::nat}"
    by (rule card_mono [OF _ sub]) simp
  also have "\<dots> < card {..<n}" using assms(2) by simp
  finally have "\<not> inj_on draw {..<n}" by (rule pigeonhole)
  then obtain i j where "i < n" "j < n" "i \<noteq> j" "draw i = draw j"
    by (auto simp: inj_on_def)
  then show ?thesis by metis
qed

text \<open>
  C9, as amended. The client identifier is \<^verbatim>\<open>rtcm_mqtt_streamer\<close> followed by the two
  digits of the number drawn from 10 to 99, and depends on nothing else: two instances
  have distinct identifiers exactly when their draws differ. Nothing makes the draws
  differ, and among any 91 instances two have the same identifier.
\<close>

theorem client_id_uniqueness:
  "(10 \<le> r1 \<and> r1 \<le> 99 \<and> 10 \<le> r2 \<and> r2 \<le> 99 \<longrightarrow>
      (client_id (make_config a1 c1 r1) = client_id (make_config a2 c2 r2) \<longleftrightarrow> r1 = r2))
   \<and> ((\<forall>i < n. 10 \<le> draw i \<and> draw i \<le> (99::nat)) \<and> 90 < (n::nat) \<longrightarrow>
        (\<exists>i < n. \<exists>j < n. i \<noteq> j \<and> make_client_id (draw i) = make_client_id (draw j)))"
  using make_client_id_inj [of r1 r2] client_id_collision [of n draw]
  by (simp add: make_config_def)

text \<open>The draws 42 and 43, and 91 instances.\<close>

theorem client_id_uniqueness_witness:
  "make_client_id 42 = ''rtcm_mqtt_streamer42''
   \<and> client_id (make_config
       \<lparr>serial_port = ''/dev/ttyACM0'', baud_rate = 115200, cert_path = ''/etc/certs'',
        mqtt_uri = ''broker.example'', mqtt_port = 8883, mqtt_topic = ''ntrip/data''\<rparr>
       (Path ''/etc/certs'') 42)
     \<noteq> client_id (make_config
       \<lparr>serial_port = ''/dev/ttyACM0'', baud_rate = 115200, cert_path = ''/etc/certs'',
        mqtt_uri = ''broker.example'', mqtt_port = 8883, mqtt_topic = ''ntrip/data''\<rparr>
       (Path ''/etc/certs'') 43)
   \<and> (\<exists>i < 91. \<exists>j < 91. i \<noteq> j
         \<and> make_client_id (10 + i mod 90) = make_client_id (10 + j mod 90))"
proof -
  have a: "make_client_id 42 = ''rtcm_mqtt_streamer42''"
    by code_simp
  have b: "client_id (make_config
       \<lparr>serial_port = ''/dev/ttyACM0'', baud_rate = 115200, cert_path = ''/etc/certs'',
        mqtt_uri = ''broker.example'', mqtt_port = 8883, mqtt_topic = ''ntrip/data''\<rparr>
       (Path ''/etc/certs'') 42)
     \<noteq> client_id (make_config
       \<lparr>serial_port = ''/dev/ttyACM0'', baud_rate = 115200, cert_path = ''/etc/certs'',
        mqtt_uri = ''broker.example'', mqtt_port = 8883, mqtt_topic = ''ntrip/data''\<rparr>
       (Path ''/etc/certs'') 43)"
    using client_id_uniqueness [where ?r1.0 = 42 and ?r2.0 = 43, THEN conjunct1] by simp
  have draws: "\<forall>i < 91. 10 \<le> 10 + i mod 90 \<and> 10 + i mod 90 \<le> (99::nat)"
    by (simp add: less_Suc_eq_le [symmetric])
  have c: "\<exists>i < 91. \<exists>j < 91. i \<noteq> j
         \<and> make_client_id (10 + i mod 90) = make_client_id (10 + j mod 90)"
    using client_id_uniqueness [where n = 91 and draw = "\<lambda>i. 10 + i mod 90", THEN conjunct2] draws
    by simp
  from a b c show ?thesis by blast
qed

text \<open>
  C9 as stated has the identifiers of any two connected instances distinct. Two instances
  on different ports that both draw 42 have the same identifier.
\<close>

theorem client_id_collision_counterexample:
  "client_id (make_config
       \<lparr>serial_port = ''/dev/ttyACM0'', baud_rate = 115200, cert_path = ''/etc/certs'',
        mqtt_uri = ''broker.example'', mqtt_port = 8883, mqtt_topic = ''ntrip/data''\<rparr>
       (Path ''/etc/certs'') 42)
   = client_id (make_config
       \<lparr>serial_port = ''/dev/ttyACM1'', baud_rate = 9600, cert_path = ''/home/pi/certs'',
        mqtt_uri = ''broker.example'', mqtt_port = 8883, mqtt_topic = ''ntrip/data''\<rparr>
       (Path ''/home/pi/certs'') 42)"
  by (simp add: make_config_def)

end
